theory Spec2Isabelle
  imports Complex_Main "HOL-Library.Char_ord" "HOL-Library.List_Lexorder" "HOL-Library.Multiset"
begin

section \<open>Values read from the database\<close>

text \<open>
  The \<^verbatim>\<open>sqlite3\<close> module hands a column value to Python as \<^verbatim>\<open>None\<close> (NULL), an
  \<^verbatim>\<open>int\<close> (INTEGER), a \<^verbatim>\<open>float\<close> (REAL), a \<^verbatim>\<open>str\<close> (TEXT) or \<^verbatim>\<open>bytes\<close> (BLOB).
  A finite float is represented by the real number it denotes. A \<^verbatim>\<open>str\<close> is a list of
  characters with code points below 256; \<^verbatim>\<open>bytes\<close> is a list of bytes.
\<close>

datatype pyfloat = Finite real | PosInf | NegInf | NaN

datatype pyval = PyNone | PyInt int | PyFloat pyfloat | PyStr string | PyBytes string

datatype int_error = TypeError | ValueError | OverflowError

subsection \<open>The builtin \<^verbatim>\<open>int(x)\<close>\<close>

text \<open>
  \<^verbatim>\<open>int\<close> of a float truncates toward zero; infinities raise \<^verbatim>\<open>OverflowError\<close>, NaN raises
  \<^verbatim>\<open>ValueError\<close>.
\<close>

definition py_trunc :: "real \<Rightarrow> int" where
  "py_trunc r = (if r < 0 then \<lceil>r\<rceil> else \<lfloor>r\<rfloor>)"

text \<open>
  \<^verbatim>\<open>int\<close> of text in base 10: optional white space, an optional sign, decimal digits that
  may be separated by single underscores, optional white space. White space is what
  \<^verbatim>\<open>Py_ISSPACE\<close> accepts (TAB, LF, VT, FF, CR, space). More than \<open>max_str_digits\<close>
  digits raise \<^verbatim>\<open>ValueError\<close> (the default limit of \<^verbatim>\<open>sys.int_info\<close>).
\<close>

definition is_space :: "char \<Rightarrow> bool" where
  "is_space c \<longleftrightarrow> (9 \<le> (of_char c :: nat) \<and> (of_char c :: nat) \<le> 13) \<or> c = CHR '' ''"

definition is_digit :: "char \<Rightarrow> bool" where
  "is_digit c \<longleftrightarrow> 48 \<le> (of_char c :: nat) \<and> (of_char c :: nat) \<le> 57"

definition digit_value :: "char \<Rightarrow> nat" where
  "digit_value c = (of_char c :: nat) - 48"

definition max_str_digits :: nat where
  "max_str_digits = 4300"

fun no_double_underscore :: "string \<Rightarrow> bool" where
  "no_double_underscore (a # b # cs) =
     (\<not> (a = CHR ''_'' \<and> b = CHR ''_'') \<and> no_double_underscore (b # cs))"
| "no_double_underscore cs = True"

definition digits_to_nat :: "string \<Rightarrow> nat" where
  "digits_to_nat ds = foldl (\<lambda>a c. 10 * a + digit_value c) 0 ds"

definition long_from_string :: "string \<Rightarrow> int_error + int" where
  "long_from_string s =
     (let s1 = dropWhile is_space s;
          neg = (s1 \<noteq> [] \<and> hd s1 = CHR ''-'');
          s2 = (if s1 \<noteq> [] \<and> (hd s1 = CHR ''+'' \<or> hd s1 = CHR ''-'') then tl s1 else s1);
          run = takeWhile (\<lambda>c. is_digit c \<or> c = CHR ''_'') s2;
          rest = dropWhile (\<lambda>c. is_digit c \<or> c = CHR ''_'') s2;
          ds = filter is_digit run
      in if run = [] \<or> hd run = CHR ''_'' \<or> last run = CHR ''_'' \<or> \<not> no_double_underscore run
         then Inl ValueError
         else if max_str_digits < length ds then Inl ValueError
         else if dropWhile is_space rest \<noteq> [] then Inl ValueError
         else Inr (if neg then - int (digits_to_nat ds) else int (digits_to_nat ds)))"

text \<open>
  A \<^verbatim>\<open>str\<close> that is not pure ASCII is first rewritten: characters below 127 stay, Unicode
  white space (below 256 these are U+0085 and U+00A0) becomes a space, a Unicode decimal
  digit becomes its ASCII digit (there is none from 127 to 255), and the first other
  character becomes \<^verbatim>\<open>?\<close> and ends the text.
\<close>

fun transform_decimal_and_space :: "string \<Rightarrow> string" where
  "transform_decimal_and_space [] = []"
| "transform_decimal_and_space (c # cs) =
     (if (of_char c :: nat) < 127 then c # transform_decimal_and_space cs
      else if (of_char c :: nat) = 133 \<or> (of_char c :: nat) = 160
           then CHR '' '' # transform_decimal_and_space cs
      else [CHR ''?''])"

definition long_from_unicode :: "string \<Rightarrow> int_error + int" where
  "long_from_unicode s =
     long_from_string (if \<forall>c \<in> set s. (of_char c :: nat) < 128 then s
                       else transform_decimal_and_space s)"

fun py_int :: "pyval \<Rightarrow> int_error + int" where
  "py_int PyNone = Inl TypeError"
| "py_int (PyInt n) = Inr n"
| "py_int (PyFloat (Finite r)) = Inr (py_trunc r)"
| "py_int (PyFloat NaN) = Inl ValueError"
| "py_int (PyFloat _) = Inl OverflowError"
| "py_int (PyStr s) = long_from_unicode s"
| "py_int (PyBytes b) = long_from_string b"

subsection \<open>\<^verbatim>\<open>int_or_0\<close>\<close>

text \<open>
  \<^verbatim>\<open>
  def int_or_0(x):
      try:
          return int(x)
      except Exception:
          return 0
  \<close>
\<close>

definition int_or_0 :: "pyval \<Rightarrow> int" where
  "int_or_0 x = (case py_int x of Inr n \<Rightarrow> n | Inl e \<Rightarrow> 0)"

section \<open>The snapshot builder\<close>

subsection \<open>User identifiers and their string form\<close>

text \<open>
  No table is declared by the program, so the column \<^verbatim>\<open>user_id\<close> can hold a value of any
  storage class of SQLite, and \<^verbatim>\<open>sqlite3\<close> hands it over as \<^verbatim>\<open>None\<close> (NULL), an \<^verbatim>\<open>int\<close>
  (INTEGER), a \<^verbatim>\<open>float\<close> (REAL), a \<^verbatim>\<open>str\<close> (TEXT) or \<^verbatim>\<open>bytes\<close> (BLOB). SQLite stores a NaN
  as NULL, so a \<^verbatim>\<open>float\<close> read from it is a finite number, the negative zero or an
  infinity. \<open>UReal r\<close> is the \<^verbatim>\<open>float\<close> of value \<open>r\<close> other than the negative zero.
\<close>

datatype uid =
  UNone | UInt int | UReal real | UNegZero | UPosInf | UNegInf | UStr string | UBytes string

text \<open>
  A Python set and the keys of a Python dict hold one element of each class of values
  that \<^verbatim>\<open>==\<close> holds equal. \<^verbatim>\<open>==\<close> compares an \<^verbatim>\<open>int\<close> and a \<^verbatim>\<open>float\<close> by their exact
  numerical value (\<^verbatim>\<open>1 == 1.0\<close>, \<^verbatim>\<open>0 == -0.0\<close>); values of any two other different types
  are different (\<^verbatim>\<open>1 != "1"\<close>, \<^verbatim>\<open>"a" != b"a"\<close>). \<open>py_key\<close> maps an identifier to the
  canonical member of its class: a \<^verbatim>\<open>float\<close> without fractional part to the \<^verbatim>\<open>int\<close> of the
  same value.
\<close>

fun py_key :: "uid \<Rightarrow> uid" where
  "py_key (UReal r) = (if of_int \<lfloor>r\<rfloor> = r then UInt \<lfloor>r\<rfloor> else UReal r)"
| "py_key UNegZero = UInt 0"
| "py_key UNone = UNone"
| "py_key (UInt n) = UInt n"
| "py_key UPosInf = UPosInf"
| "py_key UNegInf = UNegInf"
| "py_key (UStr s) = UStr s"
| "py_key (UBytes b) = UBytes b"

definition py_eq :: "uid \<Rightarrow> uid \<Rightarrow> bool" where
  "py_eq a b \<longleftrightarrow> py_key a = py_key b"

text \<open>\<^verbatim>\<open>str\<close> of an \<^verbatim>\<open>int\<close> is its decimal numeral.\<close>

fun dec_digits :: "nat \<Rightarrow> string" where
  "dec_digits n =
     (if n < 10 then [''0123456789'' ! n]
      else dec_digits (n div 10) @ [''0123456789'' ! (n mod 10)])"

declare dec_digits.simps [simp del]

definition str_of_int :: "int \<Rightarrow> string" where
  "str_of_int n = (if n < 0 then CHR ''-'' # dec_digits (nat (- n)) else dec_digits (nat n))"

text \<open>
  \<^verbatim>\<open>str\<close> of \<^verbatim>\<open>bytes\<close> is its \<^verbatim>\<open>repr\<close>: the bytes between quotes after the letter \<^verbatim>\<open>b\<close>. The
  quote is the single quote, unless the bytes hold a single quote and no double quote. A
  backslash and the quote are escaped by a backslash, tab, line feed and carriage return
  are written \<^verbatim>\<open>\t\<close>, \<^verbatim>\<open>\n\<close>, \<^verbatim>\<open>\r\<close>, any other byte outside the printable ASCII range is
  written \<^verbatim>\<open>\x\<close> and two hexadecimal digits.
\<close>

definition hex_digit :: "nat \<Rightarrow> char" where
  "hex_digit n = ''0123456789abcdef'' ! n"

definition bytes_repr_char :: "char \<Rightarrow> char \<Rightarrow> string" where
  "bytes_repr_char q c =
     (let n = (of_char c :: nat)
      in if c = q \<or> c = CHR 0x5C then [CHR 0x5C, c]
         else if n = 9 then [CHR 0x5C, CHR ''t'']
         else if n = 10 then [CHR 0x5C, CHR ''n'']
         else if n = 13 then [CHR 0x5C, CHR ''r'']
         else if n < 32 \<or> 127 \<le> n then [CHR 0x5C, CHR ''x'', hex_digit (n div 16), hex_digit (n mod 16)]
         else [c])"

definition bytes_repr :: "string \<Rightarrow> string" where
  "bytes_repr b =
     (let q = (if CHR 0x27 \<in> set b \<and> CHR 0x22 \<notin> set b then CHR 0x22 else CHR 0x27)
      in [CHR ''b'', q] @ concat (map (bytes_repr_char q) b) @ [q])"

text \<open>
  \<^verbatim>\<open>str\<close> of a \<^verbatim>\<open>str\<close> is the text itself, \<^verbatim>\<open>str(None)\<close> is \<^verbatim>\<open>"None"\<close>. \<^verbatim>\<open>str\<close> of a finite
  \<^verbatim>\<open>float\<close> is the shortest decimal numeral that reads back as the same \<^verbatim>\<open>float\<close>; it is
  computed by the Python runtime from the binary representation and is taken from
  outside, as the function \<open>frepr\<close> of the value.
\<close>

fun py_str :: "(real \<Rightarrow> string) \<Rightarrow> uid \<Rightarrow> string" where
  "py_str frepr UNone = ''None''"
| "py_str frepr (UInt n) = str_of_int n"
| "py_str frepr (UReal r) = frepr r"
| "py_str frepr UNegZero = ''-0.0''"
| "py_str frepr UPosInf = ''inf''"
| "py_str frepr UNegInf = ''-inf''"
| "py_str frepr (UStr s) = s"
| "py_str frepr (UBytes b) = bytes_repr b"

subsection \<open>Cursors\<close>

text \<open>
  \<^verbatim>\<open>for row in cur.execute(sql)\<close> hands the loop body some rows, one after the other, and
  then either ends or raises (the table or a column is missing, so no row was delivered;
  or fetching a later row fails). A cursor is the list of rows it delivers and whether
  it raises after them. The connection gives the cursor of each statement the program
  executes; the rows of \<^verbatim>\<open>SELECT user_id, item_name FROM user_purchases ORDER BY id\<close>
  are delivered in the order of that statement, ascending by \<^verbatim>\<open>id\<close>.
\<close>

record 'r cursor =
  fetched :: "'r list"
  raised :: bool

record conn =
  select_user_id :: "string \<Rightarrow> uid cursor"
  select_user_credits :: "(uid \<times> pyval \<times> pyval \<times> pyval) cursor"
  select_user_daily :: "(uid \<times> pyval \<times> pyval) cursor"
  select_user_purchases :: "(uid \<times> pyval) cursor"
  select_roles :: "string \<Rightarrow> (pyval \<times> pyval) cursor"

subsection \<open>The snapshot document\<close>

record credits_rec =
  current_credits :: int
  max_credits :: int
  removed_credits :: int

record daily_rec =
  last_claim :: pyval
  streak :: int

record user_snapshot =
  user_id :: string
  registered :: bool
  credits :: credits_rec
  daily :: daily_rec
  purchases :: "pyval list"
  net_credits :: int

record role_entry =
  role_name :: pyval
  credit_amount :: int

record roles_rec =
  non_stacking_roles :: "role_entry list"
  role_credits :: "role_entry list"

record snapshot =
  generated_at :: int
  data :: "user_snapshot list"
  roles :: roles_rec

subsection \<open>\<^verbatim>\<open>build_snapshot\<close>\<close>

text \<open>
  The Python set \<^verbatim>\<open>user_ids\<close> is the list of its elements in order of insertion.
  \<^verbatim>\<open>user_ids.add(uid)\<close> leaves the set as it is when it holds an element equal to \<^verbatim>\<open>uid\<close>
  (the element inserted first stays), and inserts \<^verbatim>\<open>uid\<close> otherwise. Python does not fix
  the order in which a set is iterated, and for \<^verbatim>\<open>str\<close> elements it changes from one
  process to the next (hash randomisation): the set is iterated in ascending order of a
  ranking \<open>rank\<close> given from outside.
\<close>

definition set_add :: "uid list \<Rightarrow> uid \<Rightarrow> uid list" where
  "set_add s x = (if py_key x \<in> py_key ` set s then s else s @ [x])"

definition set_iter :: "(uid \<Rightarrow> nat) \<Rightarrow> uid list \<Rightarrow> uid list" where
  "set_iter rank s = sort_key rank s"

text \<open>
  \<^verbatim>\<open>
  user_ids = set()
  for t in ("register_status", "user_credits", "user_daily", "user_purchases"):
      try:
          for (uid,) in cur.execute(f"SELECT user_id FROM {t}"):
              user_ids.add(uid)
      except Exception:
          pass
  \<close>
  The rows delivered before an exception have been added already.
\<close>

definition primary_tables :: "string list" where
  "primary_tables = [''register_status'', ''user_credits'', ''user_daily'', ''user_purchases'']"

definition collect_user_ids :: "conn \<Rightarrow> uid list" where
  "collect_user_ids c =
     foldl (\<lambda>s t. foldl set_add s (fetched (select_user_id c t))) [] primary_tables"

definition zero_credits :: credits_rec where
  "zero_credits = \<lparr>current_credits = 0, max_credits = 0, removed_credits = 0\<rparr>"

definition default_daily :: daily_rec where
  "default_daily = \<lparr>last_claim = PyNone, streak = 0\<rparr>"

definition credits_of_row :: "uid \<times> pyval \<times> pyval \<times> pyval \<Rightarrow> credits_rec" where
  "credits_of_row r = (case r of (uid, currc, maxc, remc) \<Rightarrow>
     \<lparr>current_credits = int_or_0 currc, max_credits = int_or_0 maxc,
      removed_credits = int_or_0 remc\<rparr>)"

definition daily_of_row :: "uid \<times> pyval \<times> pyval \<Rightarrow> daily_rec" where
  "daily_of_row r = (case r of (uid, lastc, strk) \<Rightarrow>
     \<lparr>last_claim = lastc, streak = int_or_0 strk\<rparr>)"

text \<open>
  A Python dict finds the entry of a key by \<^verbatim>\<open>==\<close>: \<^verbatim>\<open>d[1] = v\<close> replaces the value
  stored under the key \<^verbatim>\<open>1.0\<close>, and \<^verbatim>\<open>d.get(1.0)\<close> finds what was stored under \<^verbatim>\<open>1\<close>. The
  program never iterates a dict, so a dict is the map from the canonical member
  \<open>py_key k\<close> of the class of a key \<open>k\<close> to the value stored: \<^verbatim>\<open>d[k] = v\<close> is
  \<open>d(py_key k \<mapsto> v)\<close> and \<^verbatim>\<open>d.get(k)\<close> is \<open>d (py_key k)\<close>.

  \<^verbatim>\<open>
  credits = {uid: {"current_credits": 0, "max_credits": 0, "removed_credits": 0} for uid in user_ids}
  try:
      for uid, curr, maxc, rem in cur.execute(...):
          credits[uid] = {...}
  except Exception:
      pass
  \<close>
\<close>

definition read_credits :: "conn \<Rightarrow> uid list \<Rightarrow> (uid \<rightharpoonup> credits_rec)" where
  "read_credits c user_ids =
     foldl (\<lambda>m r. m(py_key (fst r) \<mapsto> credits_of_row r))
       (\<lambda>k. if k \<in> py_key ` set user_ids then Some zero_credits else None)
       (fetched (select_user_credits c))"

definition read_daily :: "conn \<Rightarrow> uid list \<Rightarrow> (uid \<rightharpoonup> daily_rec)" where
  "read_daily c user_ids =
     foldl (\<lambda>m r. m(py_key (fst r) \<mapsto> daily_of_row r))
       (\<lambda>k. if k \<in> py_key ` set user_ids then Some default_daily else None)
       (fetched (select_user_daily c))"

text \<open>\<^verbatim>\<open>purchases.setdefault(uid, []).append(item)\<close>\<close>

definition read_purchases :: "conn \<Rightarrow> (uid \<rightharpoonup> pyval list)" where
  "read_purchases c =
     foldl (\<lambda>m r. m(py_key (fst r) \<mapsto>
                     (case m (py_key (fst r)) of None \<Rightarrow> [] | Some xs \<Rightarrow> xs) @ [snd r]))
       Map.empty (fetched (select_user_purchases c))"

text \<open>
  \<^verbatim>\<open>
  registered = set()
  try:
      registered = {uid for (uid,) in cur.execute("SELECT user_id FROM register_status")}
  except Exception:
      pass
  \<close>
  The assignment happens only when the comprehension has read every row. The set is only
  asked whether it holds an element equal to a given identifier (\<^verbatim>\<open>uid in registered\<close>): it
  is the set of the canonical members of the classes of its elements.
\<close>

definition read_registered :: "conn \<Rightarrow> uid set" where
  "read_registered c =
     (let cur = select_user_id c ''register_status''
      in if raised cur then {} else py_key ` set (fetched cur))"

text \<open>\<^verbatim>\<open>x or 0\<close> on an \<^verbatim>\<open>int\<close>\<close>

definition or_0 :: "int \<Rightarrow> int" where
  "or_0 x = (if x \<noteq> 0 then x else 0)"

definition user_record ::
  "(real \<Rightarrow> string) \<Rightarrow> uid set \<Rightarrow> (uid \<rightharpoonup> credits_rec) \<Rightarrow> (uid \<rightharpoonup> daily_rec)
     \<Rightarrow> (uid \<rightharpoonup> pyval list) \<Rightarrow> uid \<Rightarrow> user_snapshot" where
  "user_record frepr reg cred dly purch uid =
     (let cr = (case cred (py_key uid) of Some v \<Rightarrow> v | None \<Rightarrow> zero_credits);
          dl = (case dly (py_key uid) of Some v \<Rightarrow> v | None \<Rightarrow> default_daily);
          pu = (case purch (py_key uid) of Some v \<Rightarrow> v | None \<Rightarrow> [])
      in \<lparr>user_id = py_str frepr uid, registered = (py_key uid \<in> reg), credits = cr,
          daily = dl, purchases = pu,
          net_credits = or_0 (current_credits cr) - or_0 (removed_credits cr)\<rparr>)"

definition read_roles :: "conn \<Rightarrow> string \<Rightarrow> role_entry list" where
  "read_roles c table =
     map (\<lambda>r. \<lparr>role_name = fst r, credit_amount = int_or_0 (snd r)\<rparr>)
       (fetched (select_roles c table))"

text \<open>
  \<open>frepr\<close> is \<^verbatim>\<open>str\<close> on finite \<^verbatim>\<open>float\<close> values, \<open>rank\<close> is the iteration order of the set
  and \<open>now\<close> the value of \<^verbatim>\<open>int(time.time())\<close>.
\<close>

definition build_snapshot :: "(real \<Rightarrow> string) \<Rightarrow> (uid \<Rightarrow> nat) \<Rightarrow> int \<Rightarrow> conn \<Rightarrow> snapshot" where
  "build_snapshot frepr rank now c =
     (let user_ids = collect_user_ids c;
          cred = read_credits c user_ids;
          dly = read_daily c user_ids;
          purch = read_purchases c;
          reg = read_registered c;
          users = map (user_record frepr reg cred dly purch)
                    (sort_key (py_str frepr) (set_iter rank user_ids))
      in \<lparr>generated_at = now, data = users,
          roles = \<lparr>non_stacking_roles = read_roles c ''non_stacking_roles'',
                   role_credits = read_roles c ''role_credits''\<rparr>\<rparr>)"

section \<open>Files, network and the command line\<close>

text \<open>
  The file system is a map from paths to files, a file being its content and its
  permission bits; a path is the string the program uses, and two strings name two
  files. Directories are not tracked. Everything the program does not decide itself is
  read from an environment: what the network answers, which names \<^verbatim>\<open>mkstemp\<close> draws,
  which system calls fail, what SQLite makes of a file, the clock, the iteration order of
  the set, and the text \<^verbatim>\<open>json.dump\<close> writes for a document.
\<close>

type_synonym path = string

type_synonym file_data = "string \<times> nat"

type_synonym fs = "path \<rightharpoonup> file_data"

datatype step = Makedirs | Mkstemp | Dump | Flush | Fsync | Close | Replace | Chmod

text \<open>
  \<open>SystemExit rc msg\<close> is \<^verbatim>\<open>die(msg, rc)\<close>; the others are exceptions nobody catches.
\<close>

datatype exn = SystemExit nat string | WriteError step | ConnectError

text \<open>
  \<open>Response body None\<close>: \<^verbatim>\<open>urlopen\<close> returns and \<^verbatim>\<open>r.read()\<close> gives \<open>body\<close>;
  \<open>Response body (Some msg)\<close>: \<^verbatim>\<open>urlopen\<close> returns and \<^verbatim>\<open>r.read()\<close> raises;
  \<open>HTTPError code reason\<close> and \<open>URLError msg\<close>: \<^verbatim>\<open>urlopen\<close> raises.
\<close>

datatype http_response =
  HTTPError nat string | URLError string | Response string "string option"

record env =
  urlopen :: "string \<Rightarrow> http_response"
  gettempdir :: path
  tmp_names :: "string list"
  db_write_fails :: "nat option"
  sqlite_connect :: "bool \<Rightarrow> path \<Rightarrow> fs \<Rightarrow> conn option"
  clock :: int
  set_rank :: "uid \<Rightarrow> nat"
  float_repr :: "real \<Rightarrow> string"
  json_dump :: "snapshot \<Rightarrow> string \<times> bool"
  makedirs_ok :: "path \<Rightarrow> bool"
  flush_ok :: bool
  fsync_ok :: bool
  close_ok :: bool
  replace_ok :: bool
  chmod_ok :: bool
  remove_ok :: bool

record args =
  db :: "string option"
  db_url :: "string option"
  out :: string

definition die :: "string \<Rightarrow> exn" where
  "die msg = SystemExit 1 msg"

subsection \<open>Paths and temporary files\<close>

text \<open>
  \<^verbatim>\<open>os.path.dirname\<close> (POSIX): the part up to the last slash, without trailing slashes
  unless it consists of slashes only.
\<close>

definition dirname :: "path \<Rightarrow> path" where
  "dirname p =
     (let head = rev (dropWhile (\<lambda>c. c \<noteq> CHR ''/'') (rev p))
      in if head \<noteq> [] \<and> (\<exists>c \<in> set head. c \<noteq> CHR ''/'')
         then rev (dropWhile (\<lambda>c. c = CHR ''/'') (rev head)) else head)"

definition path_join :: "path \<Rightarrow> string \<Rightarrow> path" where
  "path_join d f = (if d = [] \<or> last d = CHR ''/'' then d @ f else d @ ''/'' @ f)"

text \<open>
  \<^verbatim>\<open>tempfile.mkstemp(suffix, dir)\<close> draws random names, \<^verbatim>\<open>tmp\<close> then the random part
  then the suffix, until it can create a file that did not exist; it raises when no name
  is left. The names drawn are \<open>tmp_names\<close>. The new file is empty, with mode 0600.
\<close>

definition mkstemp :: "env \<Rightarrow> string \<Rightarrow> path \<Rightarrow> fs \<Rightarrow> path option" where
  "mkstemp e suffix dir fs =
     find (\<lambda>p. fs p = None) (map (\<lambda>n. path_join dir (''tmp'' @ n @ suffix)) (tmp_names e))"

definition mode_0600 :: nat where
  "mode_0600 = 384"

definition mode_0644 :: nat where
  "mode_0644 = 420"

subsection \<open>\<^verbatim>\<open>download_to_tmp\<close>\<close>

text \<open>
  \<^verbatim>\<open>
  try:
      with urllib.request.urlopen(url, timeout=60) as r:
          suffix = ".db"
          fd, tmp = tempfile.mkstemp(suffix=suffix)
          with os.fdopen(fd, "wb") as f:
              f.write(r.read())
      return tmp
  except urllib.error.HTTPError as e:
      die(f"HTTP error {e.code} while fetching DB: {e.reason}")
  except Exception as e:
      die(f"Failed to download DB: {e}")
  \<close>
  The result is the path or the exit, and the file system as the function leaves it.
  Where the environment gives no text for an exception (\<^verbatim>\<open>mkstemp\<close>, \<^verbatim>\<open>f.write\<close>), the
  message of \<^verbatim>\<open>die\<close> names the call that raised. \<open>db_write_fails e = Some k\<close> means that
  writing the body raises after \<open>k\<close> bytes.
\<close>

definition download_to_tmp :: "env \<Rightarrow> string \<Rightarrow> fs \<Rightarrow> (exn + path) \<times> fs" where
  "download_to_tmp e url fs =
     (case urlopen e url of
        HTTPError code reason \<Rightarrow>
          (Inl (die (''HTTP error '' @ str_of_int (int code) @ '' while fetching DB: '' @ reason)),
           fs)
      | URLError msg \<Rightarrow> (Inl (die (''Failed to download DB: '' @ msg)), fs)
      | Response body read_error \<Rightarrow>
          (case mkstemp e ''.db'' (gettempdir e) fs of
             None \<Rightarrow> (Inl (die ''Failed to download DB: mkstemp''), fs)
           | Some tmp \<Rightarrow>
               (let fs1 = fs(tmp \<mapsto> ([], mode_0600))
                in case read_error of
                     Some msg \<Rightarrow> (Inl (die (''Failed to download DB: '' @ msg)), fs1)
                   | None \<Rightarrow>
                       (case db_write_fails e of
                          Some k \<Rightarrow>
                            (Inl (die ''Failed to download DB: write''),
                             fs1(tmp \<mapsto> (take k body, mode_0600)))
                        | None \<Rightarrow> (Inr tmp, fs1(tmp \<mapsto> (body, mode_0600)))))))"

subsection \<open>\<^verbatim>\<open>open_sqlite_ro\<close>\<close>

text \<open>
  \<^verbatim>\<open>
  if not os.path.exists(path):
      die(f"DB file not found: {path}")
  uri = f"file:{os.path.abspath(path)}?mode=ro"
  try:
      return sqlite3.connect(uri, uri=True)
  except sqlite3.OperationalError:
      return sqlite3.connect(path)
  \<close>
  \<open>sqlite_connect e True\<close> is the connection by URI and \<open>sqlite_connect e False\<close> the
  plain one; \<open>None\<close> means that the call raises.
\<close>

definition open_sqlite_ro :: "env \<Rightarrow> path \<Rightarrow> fs \<Rightarrow> exn + conn" where
  "open_sqlite_ro e p fs =
     (if fs p = None then Inl (die (''DB file not found: '' @ p))
      else case sqlite_connect e True p fs of
             Some c \<Rightarrow> Inr c
           | None \<Rightarrow>
               (case sqlite_connect e False p fs of
                  Some c \<Rightarrow> Inr c
                | None \<Rightarrow> Inl ConnectError))"

subsection \<open>\<^verbatim>\<open>atomic_write_json\<close>\<close>

text \<open>
  \<^verbatim>\<open>
  os.makedirs(os.path.dirname(out_path), exist_ok=True)
  fd, tmp = tempfile.mkstemp(suffix=".json", dir=os.path.dirname(out_path))
  with os.fdopen(fd, "w", encoding="utf-8") as f:
      json.dump(obj, f, separators=(",", ":"), ensure_ascii=False)
      f.flush()
      os.fsync(f.fileno())
  os.replace(tmp, out_path)
  os.chmod(out_path, 0o644)
  \<close>
  The result is the exception that ends the function, if any, and every state the file
  system goes through, the last one being the state the function leaves. \<open>json_dump\<close>
  gives the text written to the file and whether \<^verbatim>\<open>json.dump\<close> raised after writing it
  (a value it cannot encode, a full disk). \<^verbatim>\<open>os.makedirs\<close> raises on the empty path and
  on the path of a file. \<^verbatim>\<open>os.replace\<close> gives the destination path the temporary file and
  removes the temporary name, in one step.
\<close>

definition atomic_write_json :: "env \<Rightarrow> snapshot \<Rightarrow> path \<Rightarrow> fs \<Rightarrow> exn option \<times> fs list" where
  "atomic_write_json e obj out_path fs =
     (let d = dirname out_path
      in if d = [] \<or> fs d \<noteq> None \<or> \<not> makedirs_ok e d then (Some (WriteError Makedirs), [fs])
         else case mkstemp e ''.json'' d fs of
                None \<Rightarrow> (Some (WriteError Mkstemp), [fs])
              | Some tmp \<Rightarrow>
                  (let fs1 = fs(tmp \<mapsto> ([], mode_0600));
                       text = fst (json_dump e obj);
                       fs2 = fs1(tmp \<mapsto> (text, mode_0600))
                   in if snd (json_dump e obj) then (Some (WriteError Dump), [fs, fs1, fs2])
                      else if \<not> flush_ok e then (Some (WriteError Flush), [fs, fs1, fs2])
                      else if \<not> fsync_ok e then (Some (WriteError Fsync), [fs, fs1, fs2])
                      else if \<not> close_ok e then (Some (WriteError Close), [fs, fs1, fs2])
                      else if \<not> replace_ok e then (Some (WriteError Replace), [fs, fs1, fs2])
                      else (let fs3 = (fs2(tmp := None))(out_path \<mapsto> (text, mode_0600))
                            in if \<not> chmod_ok e
                               then (Some (WriteError Chmod), [fs, fs1, fs2, fs3])
                               else (None, [fs, fs1, fs2, fs3,
                                            fs3(out_path \<mapsto> (text, mode_0644))]))))"

subsection \<open>\<^verbatim>\<open>main\<close>\<close>

text \<open>
  \<open>args\<close> is the result of \<^verbatim>\<open>parse_args\<close>: \<^verbatim>\<open>--db\<close> and \<^verbatim>\<open>--db-url\<close> are optional,
  \<^verbatim>\<open>--out\<close> is required. An argument is true in a condition when it was given and is not
  empty. The lines that \<^verbatim>\<open>info\<close> prints are not part of the model, and neither is the
  transaction that \<^verbatim>\<open>with conn\<close> opens around the reads.
\<close>

definition truthy :: "string option \<Rightarrow> bool" where
  "truthy a \<longleftrightarrow> a \<noteq> None \<and> a \<noteq> Some []"

definition arg_text :: "string option \<Rightarrow> string" where
  "arg_text a = (case a of Some s \<Rightarrow> s | None \<Rightarrow> [])"

text \<open>
  The body of the \<^verbatim>\<open>try\<close>:
  \<^verbatim>\<open>
  if args.db_url:
      db_path = tmp_db = download_to_tmp(args.db_url)
  else:
      db_path = args.db
  conn = open_sqlite_ro(db_path)
  with conn:
      snapshot = build_snapshot(conn)
  atomic_write_json(snapshot, args.out)
  \<close>
  The result is the exception that leaves the block, if any, the value of \<^verbatim>\<open>tmp_db\<close>
  then, and the file system.
\<close>

definition main_try :: "env \<Rightarrow> args \<Rightarrow> fs \<Rightarrow> exn option \<times> path option \<times> fs" where
  "main_try e a fs =
     (let acquired =
            (if truthy (db_url a)
             then (case download_to_tmp e (arg_text (db_url a)) fs of
                     (Inl x, fs1) \<Rightarrow> (Inl x, None, fs1)
                   | (Inr tmp, fs1) \<Rightarrow> (Inr tmp, Some tmp, fs1))
             else (Inr (arg_text (db a)), None, fs))
      in case acquired of
           (Inl x, tmp_db, fs1) \<Rightarrow> (Some x, tmp_db, fs1)
         | (Inr db_path, tmp_db, fs1) \<Rightarrow>
             (case open_sqlite_ro e db_path fs1 of
                Inl x \<Rightarrow> (Some x, tmp_db, fs1)
              | Inr c \<Rightarrow>
                  (let snapshot = build_snapshot (float_repr e) (set_rank e) (clock e) c;
                       w = atomic_write_json e snapshot (out a) fs1
                   in (fst w, tmp_db, last (snd w)))))"

text \<open>
  The \<^verbatim>\<open>finally\<close>:
  \<^verbatim>\<open>
  if tmp_db and os.path.exists(tmp_db):
      try: os.remove(tmp_db)
      except Exception: pass
  \<close>
\<close>

definition main_finally :: "env \<Rightarrow> path option \<Rightarrow> fs \<Rightarrow> fs" where
  "main_finally e tmp_db fs =
     (case tmp_db of
        None \<Rightarrow> fs
      | Some p \<Rightarrow> if p \<noteq> [] \<and> fs p \<noteq> None \<and> remove_ok e then fs(p := None) else fs)"

text \<open>
  The result of \<open>main\<close> is how the process ends (\<open>None\<close>: exit code 0) and the file
  system it leaves.
\<close>

definition main :: "env \<Rightarrow> args \<Rightarrow> fs \<Rightarrow> exn option \<times> fs" where
  "main e a fs =
     (if \<not> truthy (db a) \<and> \<not> truthy (db_url a)
      then (Some (die ''Provide either --db or --db-url''), fs)
      else case main_try e a fs of
             (r, tmp_db, fs1) \<Rightarrow> (r, main_finally e tmp_db fs1))"

section \<open>Notions used in the properties\<close>

text \<open>
  The identifiers that the four scans of \<^verbatim>\<open>user_id\<close> deliver, in the order in which the
  program reads them.
\<close>

definition scanned :: "conn \<Rightarrow> uid list" where
  "scanned c =
     fetched (select_user_id c ''register_status'') @ fetched (select_user_id c ''user_credits'')
     @ fetched (select_user_id c ''user_daily'') @ fetched (select_user_id c ''user_purchases'')"

definition seen_user_ids :: "conn \<Rightarrow> uid set" where
  "seen_user_ids c = set (scanned c)"

text \<open>
  Of a list of identifiers, the first of each class of identifiers that Python holds
  equal, in the order of the list.
\<close>

fun first_seen :: "uid list \<Rightarrow> uid list" where
  "first_seen [] = []"
| "first_seen (x # xs) = x # first_seen (filter (\<lambda>y. \<not> py_eq x y) xs)"

text \<open>
  The rows of one identifier, in the order of delivery: the rows whose identifier Python
  holds equal to it.
\<close>

definition rows_of :: "uid \<Rightarrow> (uid \<times> 'a) list \<Rightarrow> (uid \<times> 'a) list" where
  "rows_of u rs = filter (\<lambda>r. py_eq (fst r) u) rs"

text \<open>The record that the assembling loop of \<open>build_snapshot\<close> makes for an identifier.\<close>

definition entry_of :: "(real \<Rightarrow> string) \<Rightarrow> conn \<Rightarrow> uid \<Rightarrow> user_snapshot" where
  "entry_of frepr c u =
     user_record frepr (read_registered c) (read_credits c (collect_user_ids c))
       (read_daily c (collect_user_ids c)) (read_purchases c) u"

text \<open>
  The specification's ``valid integer'', read as widely as its words allow: an INTEGER,
  a real without fractional part, or text or bytes that \<^verbatim>\<open>int\<close> accepts.
\<close>

definition spec_valid_integer :: "pyval \<Rightarrow> bool" where
  "spec_valid_integer v =
     (case v of
        PyNone \<Rightarrow> False
      | PyInt n \<Rightarrow> True
      | PyFloat f \<Rightarrow> (case f of Finite r \<Rightarrow> of_int \<lfloor>r\<rfloor> = r | _ \<Rightarrow> False)
      | PyStr s \<Rightarrow> (case long_from_unicode s of Inr n \<Rightarrow> True | Inl e \<Rightarrow> False)
      | PyBytes b \<Rightarrow> (case long_from_string b of Inr n \<Rightarrow> True | Inl e \<Rightarrow> False))"

section \<open>Example inputs\<close>

text \<open>A statement on a table that does not exist, and a statement that delivers all its rows.\<close>

definition absent :: "'r cursor" where
  "absent = \<lparr>fetched = [], raised = True\<rparr>"

definition delivers :: "'r list \<Rightarrow> 'r cursor" where
  "delivers rs = \<lparr>fetched = rs, raised = False\<rparr>"

text \<open>
  User \<^verbatim>\<open>"42"\<close> is registered, has two rows in \<^verbatim>\<open>user_credits\<close>, two in \<^verbatim>\<open>user_daily\<close> and
  two purchases; user \<^verbatim>\<open>7\<close> appears in \<^verbatim>\<open>user_purchases\<close> only. The role tables do not exist.
\<close>

definition conn_example :: conn where
  "conn_example =
     \<lparr>select_user_id = (\<lambda>t.
        if t = ''register_status'' then delivers [UStr ''42'']
        else if t = ''user_credits'' then delivers [UStr ''42'', UStr ''42'']
        else if t = ''user_daily'' then delivers [UStr ''42'', UStr ''42'']
        else if t = ''user_purchases'' then delivers [UStr ''42'', UInt 7, UStr ''42'']
        else absent),
      select_user_credits =
        delivers [(UStr ''42'', PyInt 1, PyInt 1, PyInt 1),
                  (UStr ''42'', PyInt 100, PyNone, PyStr ''30'')],
      select_user_daily =
        delivers [(UStr ''42'', PyInt 1600000000, PyInt 4),
                  (UStr ''42'', PyInt 1700000000, PyStr ''5'')],
      select_user_purchases =
        delivers [(UStr ''42'', PyStr ''sword''), (UInt 7, PyStr ''potion''),
                  (UStr ''42'', PyStr ''shield'')],
      select_roles = (\<lambda>t. absent)\<rparr>"

text \<open>
  \<^verbatim>\<open>user_credits\<close> stores the identifier of a user as the INTEGER 1, \<^verbatim>\<open>user_purchases\<close>
  stores it as the TEXT \<^verbatim>\<open>"1"\<close>; the other tables do not exist.
\<close>

definition conn_mixed :: conn where
  "conn_mixed =
     \<lparr>select_user_id = (\<lambda>t.
        if t = ''user_credits'' then delivers [UInt 1]
        else if t = ''user_purchases'' then delivers [UStr ''1'']
        else absent),
      select_user_credits = delivers [(UInt 1, PyInt 100, PyInt 100, PyInt 0)],
      select_user_daily = absent,
      select_user_purchases = delivers [(UStr ''1'', PyStr ''sword'')],
      select_roles = (\<lambda>t. absent)\<rparr>"

text \<open>
  \<^verbatim>\<open>register_status\<close> stores the identifier of a user as the REAL 1.0, and \<^verbatim>\<open>user_credits\<close>
  and \<^verbatim>\<open>user_purchases\<close> store it as the INTEGER 1; \<^verbatim>\<open>user_daily\<close> does not exist.
\<close>

definition conn_float :: conn where
  "conn_float =
     \<lparr>select_user_id = (\<lambda>t.
        if t = ''register_status'' then delivers [UReal 1]
        else if t = ''user_credits'' then delivers [UInt 1]
        else if t = ''user_purchases'' then delivers [UInt 1]
        else absent),
      select_user_credits = delivers [(UInt 1, PyInt 100, PyInt 100, PyInt 0)],
      select_user_daily = absent,
      select_user_purchases = delivers [(UInt 1, PyStr ''sword'')],
      select_roles = (\<lambda>t. absent)\<rparr>"

text \<open>
  The only table is \<^verbatim>\<open>user_purchases\<close>. Its column \<^verbatim>\<open>user_id\<close> holds a NULL, a BLOB (the
  byte 1, the letter \<^verbatim>\<open>a\<close> and a single quote), the REAL \<^verbatim>\<open>-0.0\<close>, the INTEGER 0 and the
  TEXT \<^verbatim>\<open>"x"\<close>, in the order of the column \<^verbatim>\<open>id\<close>.
\<close>

definition conn_storage_classes :: conn where
  "conn_storage_classes =
     \<lparr>select_user_id = (\<lambda>t.
        if t = ''user_purchases''
        then delivers [UNone, UBytes [CHR 0x01, CHR ''a'', CHR 0x27], UNegZero, UInt 0, UStr ''x'']
        else absent),
      select_user_credits = absent,
      select_user_daily = absent,
      select_user_purchases =
        delivers [(UNone, PyStr ''axe''), (UBytes [CHR 0x01, CHR ''a'', CHR 0x27], PyStr ''bow''),
                  (UNegZero, PyStr ''cape''), (UInt 0, PyStr ''dart''), (UStr ''x'', PyStr ''elixir'')],
      select_roles = (\<lambda>t. absent)\<rparr>"

text \<open>Two iteration orders of a set: integers first, or text first.\<close>

definition ints_first :: "uid \<Rightarrow> nat" where
  "ints_first u = (case u of UInt n \<Rightarrow> 0 | _ \<Rightarrow> 1)"

definition text_first :: "uid \<Rightarrow> nat" where
  "text_first u = (case u of UStr s \<Rightarrow> 0 | _ \<Rightarrow> 1)"

text \<open>
  \<^verbatim>\<open>str\<close> of a \<^verbatim>\<open>float\<close> of magnitude below \<open>10\<^sup>1\<^sup>6\<close> that has no fractional part: the
  decimal numeral of the whole number, followed by \<^verbatim>\<open>.0\<close>. The examples have no other
  \<^verbatim>\<open>float\<close>.
\<close>

definition repr_whole :: "real \<Rightarrow> string" where
  "repr_whole r = str_of_int \<lfloor>r\<rfloor> @ ''.0''"

text \<open>
  \<^verbatim>\<open>user_credits\<close> has the users 1 and 2. The scan of \<^verbatim>\<open>user_id\<close> reads both; the scan of
  the credit columns delivers the row of user 1 and raises on the row of user 2.
\<close>

definition conn_partial :: conn where
  "conn_partial =
     \<lparr>select_user_id = (\<lambda>t. if t = ''user_credits'' then delivers [UInt 1, UInt 2] else absent),
      select_user_credits = \<lparr>fetched = [(UInt 1, PyInt 5, PyInt 9, PyInt 2)], raised = True\<rparr>,
      select_user_daily = absent,
      select_user_purchases = absent,
      select_roles = (\<lambda>t. absent)\<rparr>"

text \<open>A user that appears in \<^verbatim>\<open>user_purchases\<close> only; no other table exists.\<close>

definition conn_only_purchases :: conn where
  "conn_only_purchases =
     \<lparr>select_user_id = (\<lambda>t. if t = ''user_purchases'' then delivers [UStr ''9''] else absent),
      select_user_credits = absent,
      select_user_daily = absent,
      select_user_purchases = delivers [(UStr ''9'', PyStr ''bow'')],
      select_roles = (\<lambda>t. absent)\<rparr>"

text \<open>
  An environment in which nothing fails. The remote file and the local file are two
  different databases: SQLite reads the users of \<open>conn_example\<close> from the content
  \<^verbatim>\<open>local\<close> and the user of \<open>conn_only_purchases\<close> from the content \<^verbatim>\<open>remote\<close>. The
  document written lists the \<^verbatim>\<open>user_id\<close> values, which is enough to tell documents apart.
\<close>

definition env_example :: env where
  "env_example =
     \<lparr>urlopen = (\<lambda>url. Response ''remote'' None),
      gettempdir = ''/tmp'',
      tmp_names = [''k3v9x1aa''],
      db_write_fails = None,
      sqlite_connect = (\<lambda>uri p fs.
        if map_option fst (fs p) = Some ''local'' then Some conn_example
        else if map_option fst (fs p) = Some ''remote'' then Some conn_only_purchases
        else None),
      clock = 1700000000,
      set_rank = ints_first,
      float_repr = repr_whole,
      json_dump = (\<lambda>s. (concat (map (\<lambda>x. user_id x @ '';'') (data s)), False)),
      makedirs_ok = (\<lambda>d. True),
      flush_ok = True,
      fsync_ok = True,
      close_ok = True,
      replace_ok = True,
      chmod_ok = True,
      remove_ok = True\<rparr>"

definition fs_local :: fs where
  "fs_local = [''/data/credits.db'' \<mapsto> (''local'', mode_0644)]"

definition args_both :: args where
  "args_both =
     \<lparr>db = Some ''/data/credits.db'', db_url = Some ''https://host/credits.db'',
      out = ''/srv/snapshot.json''\<rparr>"

text \<open>The server answers, and reading the body raises (the connection times out).\<close>

definition env_read_fails :: env where
  "env_read_fails = env_example\<lparr>urlopen := (\<lambda>url. Response [] (Some ''timed out''))\<rparr>"

definition args_url :: args where
  "args_url = \<lparr>db = None, db_url = Some ''https://host/credits.db'', out = ''/srv/snapshot.json''\<rparr>"

text \<open>\<^verbatim>\<open>json.dump\<close> raises after it has written the beginning of the document.\<close>

definition env_dump_fails :: env where
  "env_dump_fails = env_example\<lparr>json_dump := (\<lambda>s. (''{\"generated_at\":17'', True))\<rparr>"

definition fs_previous :: fs where
  "fs_previous = [''/srv/snapshot.json'' \<mapsto> (''{\"generated_at\":1}'', mode_0644)]"

section \<open>Properties of \<open>int_or_0\<close>\<close>

lemma py_trunc_toward_zero:
  "\<bar>real_of_int (py_trunc r)\<bar> \<le> \<bar>r\<bar> \<and> \<bar>r - real_of_int (py_trunc r)\<bar> < 1"
proof (cases "r < 0")
  case True
  have "\<lceil>r\<rceil> \<le> 0"
    using True by (simp add: ceiling_le_zero)
  then have "real_of_int \<lceil>r\<rceil> \<le> 0"
    by simp
  then have "\<bar>real_of_int \<lceil>r\<rceil>\<bar> \<le> \<bar>r\<bar> \<and> \<bar>r - real_of_int \<lceil>r\<rceil>\<bar> < 1"
    using True ceiling_correct [of r] by linarith
  with True show ?thesis
    by (simp add: py_trunc_def)
next
  case False
  have "0 \<le> \<lfloor>r\<rfloor>"
    using False by simp
  then have "0 \<le> real_of_int \<lfloor>r\<rfloor>"
    by simp
  then have "\<bar>real_of_int \<lfloor>r\<rfloor>\<bar> \<le> \<bar>r\<bar> \<and> \<bar>r - real_of_int \<lfloor>r\<rfloor>\<bar> < 1"
    using False floor_correct [of r] by linarith
  with False show ?thesis
    by (simp add: py_trunc_def)
qed

lemmas int_literal_eval =
  int_or_0_def long_from_unicode_def long_from_string_def is_space_def is_digit_def
  digits_to_nat_def digit_value_def max_str_digits_def

text \<open>
  C5, as the claim states it, fails: the REAL value 2.5 is not a valid integer, and it is
  coerced to 2, not to 0.
\<close>

theorem int_or_0_real_counterexample:
  "\<not> spec_valid_integer (PyFloat (Finite (5 / 2))) \<and> int_or_0 (PyFloat (Finite (5 / 2))) = 2"
  by (simp add: spec_valid_integer_def int_or_0_def py_trunc_def)

text \<open>
  C5, amended: \<open>int_or_0\<close> returns an integer for every value and never raises, since every
  exception of \<^verbatim>\<open>int\<close> becomes 0 and every result of \<^verbatim>\<open>int\<close> is returned. A value that is not
  a valid integer is coerced to 0, unless it is a finite real with a fractional part: that
  one is truncated toward zero.
\<close>

theorem int_or_0_coercion:
  "(\<forall>e. py_int v = Inl e \<longrightarrow> int_or_0 v = 0)
   \<and> (\<forall>n. py_int v = Inr n \<longrightarrow> int_or_0 v = n)
   \<and> (\<not> spec_valid_integer v \<longrightarrow>
        (case v of
           PyFloat (Finite r) \<Rightarrow>
             int_or_0 v = py_trunc r \<and> \<bar>real_of_int (int_or_0 v)\<bar> \<le> \<bar>r\<bar>
             \<and> \<bar>r - real_of_int (int_or_0 v)\<bar> < 1
         | _ \<Rightarrow> int_or_0 v = 0))"
proof -
  have a: "\<forall>e. py_int v = Inl e \<longrightarrow> int_or_0 v = 0"
    by (simp add: int_or_0_def)
  have b: "\<forall>n. py_int v = Inr n \<longrightarrow> int_or_0 v = n"
    by (simp add: int_or_0_def)
  have c: "\<not> spec_valid_integer v \<longrightarrow>
        (case v of
           PyFloat (Finite r) \<Rightarrow>
             int_or_0 v = py_trunc r \<and> \<bar>real_of_int (int_or_0 v)\<bar> \<le> \<bar>r\<bar>
             \<and> \<bar>r - real_of_int (int_or_0 v)\<bar> < 1
         | _ \<Rightarrow> int_or_0 v = 0)"
  proof (cases v)
    case (PyFloat f)
    then show ?thesis
      using py_trunc_toward_zero
      by (cases f) (simp_all add: int_or_0_def spec_valid_integer_def)
  qed (simp_all add: int_or_0_def spec_valid_integer_def split: sum.splits)
  from a b c show ?thesis by blast
qed

theorem int_or_0_coercion_witness:
  "py_int PyNone = Inl TypeError \<and> int_or_0 PyNone = 0
   \<and> py_int (PyStr '' -4_2 '') = Inr (- 42) \<and> int_or_0 (PyStr '' -4_2 '') = - 42
   \<and> \<not> spec_valid_integer (PyStr ''12abc'') \<and> int_or_0 (PyStr ''12abc'') = 0"
proof -
  have n: "py_int PyNone = Inl TypeError"
    by simp
  have p: "py_int (PyStr '' -4_2 '') = Inr (- 42)"
    by (simp add: int_literal_eval)
  have q: "\<not> spec_valid_integer (PyStr ''12abc'')"
    by (simp add: spec_valid_integer_def int_literal_eval)
  show ?thesis
    using n p q int_or_0_coercion [of PyNone] int_or_0_coercion [of "PyStr '' -4_2 ''"]
      int_or_0_coercion [of "PyStr ''12abc''"]
    by simp
qed

section \<open>Properties of \<open>build_snapshot\<close>\<close>

subsection \<open>The set of identifiers\<close>

lemma first_seen_subset: "set (first_seen xs) \<subseteq> set xs"
  by (induction xs rule: first_seen.induct) auto

lemma keys_first_seen: "py_key ` set (first_seen xs) = py_key ` set xs"
  by (induction xs rule: first_seen.induct) (auto simp add: py_eq_def)

lemma distinct_keys_first_seen: "distinct (map py_key (first_seen xs))"
proof (induction xs rule: first_seen.induct)
  case 1
  show ?case
    by simp
next
  case (2 x xs)
  have "py_key x \<notin> py_key ` set (first_seen (filter (\<lambda>y. \<not> py_eq x y) xs))"
    unfolding keys_first_seen by (auto simp add: py_eq_def)
  with 2 show ?case
    by simp
qed

lemma distinct_first_seen: "distinct (first_seen xs)"
  using distinct_keys_first_seen [of xs] by (simp add: distinct_map)

lemma foldl_set_add:
  "foldl set_add s xs = s @ first_seen (filter (\<lambda>y. py_key y \<notin> py_key ` set s) xs)"
proof (induction xs arbitrary: s)
  case Nil
  show ?case
    by simp
next
  case (Cons x xs)
  show ?case
  proof (cases "py_key x \<in> py_key ` set s")
    case True
    then show ?thesis
      using Cons [of s] by (simp add: set_add_def)
  next
    case False
    have "filter (\<lambda>y. \<not> py_eq x y) (filter (\<lambda>y. py_key y \<notin> py_key ` set s) xs) =
          filter (\<lambda>y. py_key y \<notin> py_key ` set (s @ [x])) xs"
      by (auto simp add: py_eq_def intro!: filter_cong)
    with False show ?thesis
      using Cons [of "s @ [x]"] by (simp add: set_add_def)
  qed
qed

lemma foldl_tables:
  "foldl (\<lambda>s t. foldl set_add s (f t)) s ts = foldl set_add s (concat (map f ts))"
  by (induction ts arbitrary: s) simp_all

lemma collect_user_ids_first_seen: "collect_user_ids c = first_seen (scanned c)"
proof -
  have "concat (map (\<lambda>t. fetched (select_user_id c t)) primary_tables) = scanned c"
    by (simp add: primary_tables_def scanned_def)
  then have "collect_user_ids c = foldl set_add [] (scanned c)"
    by (simp only: collect_user_ids_def foldl_tables)
  then show ?thesis
    by (simp add: foldl_set_add)
qed

subsection \<open>The assembled entries\<close>

lemma data_build_snapshot:
  "data (build_snapshot frepr rank now c) =
     map (entry_of frepr c) (sort_key (py_str frepr) (set_iter rank (first_seen (scanned c))))"
  by (simp add: build_snapshot_def entry_of_def [abs_def] Let_def collect_user_ids_first_seen)

lemma user_id_entry_of: "user_id (entry_of frepr c u) = py_str frepr u"
  by (simp add: entry_of_def user_record_def Let_def)

lemma map_user_id_data:
  "map user_id (data (build_snapshot frepr rank now c)) =
     map (py_str frepr) (sort_key (py_str frepr) (set_iter rank (first_seen (scanned c))))"
  by (simp add: data_build_snapshot user_id_entry_of o_def)

lemma set_data:
  "set (data (build_snapshot frepr rank now c)) = entry_of frepr c ` set (first_seen (scanned c))"
  by (simp add: data_build_snapshot set_iter_def)

lemmas snapshot_eval =
  build_snapshot_def collect_user_ids_def primary_tables_def set_add_def set_iter_def
  read_credits_def read_daily_def read_purchases_def read_registered_def user_record_def
  read_roles_def delivers_def absent_def zero_credits_def default_daily_def credits_of_row_def
  daily_of_row_def or_0_def str_of_int_def dec_digits.simps int_or_0_def repr_whole_def Let_def

text \<open>
  C1, as the claim states it, fails in both ways. The \<^verbatim>\<open>user_id\<close> values of the output can
  repeat: with the identifier 1 stored as INTEGER in one table and as TEXT in another,
  the output has two entries whose \<^verbatim>\<open>user_id\<close> is \<^verbatim>\<open>"1"\<close>. And an identifier read can be
  missing: with the REAL 1.0 in \<^verbatim>\<open>register_status\<close> and the INTEGER 1 in \<^verbatim>\<open>user_credits\<close>,
  which Python holds equal, the output has the one entry \<^verbatim>\<open>"1.0"\<close> and no entry \<^verbatim>\<open>"1"\<close>.
\<close>

theorem user_id_duplicate_counterexample:
  "map user_id (data (build_snapshot repr_whole ints_first 0 conn_mixed)) = [''1'', ''1'']
   \<and> \<not> distinct (map user_id (data (build_snapshot repr_whole ints_first 0 conn_mixed)))
   \<and> UInt 1 \<in> seen_user_ids conn_float
   \<and> map user_id (data (build_snapshot repr_whole ints_first 0 conn_float)) = [''1.0'']
   \<and> py_str repr_whole (UInt 1) \<notin>
       set (map user_id (data (build_snapshot repr_whole ints_first 0 conn_float)))"
proof -
  have a: "map user_id (data (build_snapshot repr_whole ints_first 0 conn_mixed)) = [''1'', ''1'']"
    by (simp add: snapshot_eval conn_mixed_def ints_first_def)
  have b: "UInt 1 \<in> seen_user_ids conn_float"
    by (simp add: seen_user_ids_def scanned_def conn_float_def delivers_def absent_def)
  have c: "map user_id (data (build_snapshot repr_whole ints_first 0 conn_float)) = [''1.0'']"
    by (simp add: snapshot_eval conn_float_def ints_first_def)
  have d: "py_str repr_whole (UInt 1) = ''1''"
    by (simp add: str_of_int_def dec_digits.simps)
  show ?thesis
    unfolding a c d using b by simp
qed

text \<open>
  C1, amended: \<^verbatim>\<open>data\<close> has exactly one entry for each class of identifiers read from
  the four relations that Python holds equal (\<^verbatim>\<open>1 == 1.0\<close>, \<^verbatim>\<open>1 != "1"\<close>), and the \<^verbatim>\<open>user_id\<close>
  of the entry is the string form of the identifier of the class that is read first
  (\<^verbatim>\<open>register_status\<close>, then \<^verbatim>\<open>user_credits\<close>, \<^verbatim>\<open>user_daily\<close>, \<^verbatim>\<open>user_purchases\<close>, each in the
  order of delivery). So every identifier read is equal, in Python's sense, to the
  identifier of exactly one entry, and nothing else has an entry. The \<^verbatim>\<open>user_id\<close> values
  are free of duplicates exactly when no two of these first identifiers have the same
  string form.
\<close>

theorem user_ids_are_first_seen_ids:
  "mset (map user_id (data (build_snapshot frepr rank now c))) =
     mset (map (py_str frepr) (first_seen (scanned c)))
   \<and> set (first_seen (scanned c)) \<subseteq> seen_user_ids c
   \<and> py_key ` set (first_seen (scanned c)) = py_key ` seen_user_ids c
   \<and> distinct (map py_key (first_seen (scanned c)))
   \<and> length (data (build_snapshot frepr rank now c)) = card (py_key ` seen_user_ids c)
   \<and> (distinct (map user_id (data (build_snapshot frepr rank now c)))
        \<longleftrightarrow> inj_on (py_str frepr) (set (first_seen (scanned c))))"
proof -
  let ?ids = "first_seen (scanned c)"
  let ?xs = "sort_key (py_str frepr) (set_iter rank ?ids)"
  have m: "map user_id (data (build_snapshot frepr rank now c)) = map (py_str frepr) ?xs"
    by (rule map_user_id_data)
  have p: "mset ?xs = mset ?ids"
    by (simp add: set_iter_def)
  have a: "mset (map user_id (data (build_snapshot frepr rank now c))) =
             mset (map (py_str frepr) ?ids)"
    unfolding m using p by (metis mset_map)
  have s: "set ?xs = set ?ids"
    by (simp add: set_iter_def)
  have d: "distinct ?xs"
    by (simp add: set_iter_def distinct_first_seen)
  have "card (py_key ` set ?ids) = length (map py_key ?ids)"
    using distinct_keys_first_seen [of "scanned c"] distinct_card [of "map py_key ?ids"]
    by simp
  then have l: "length (data (build_snapshot frepr rank now c)) = card (py_key ` seen_user_ids c)"
    by (simp add: data_build_snapshot set_iter_def keys_first_seen seen_user_ids_def)
  have i: "distinct (map user_id (data (build_snapshot frepr rank now c)))
             \<longleftrightarrow> inj_on (py_str frepr) (set ?ids)"
    unfolding m using s d by (simp add: distinct_map)
  show ?thesis
    using a l i first_seen_subset [of "scanned c"] keys_first_seen [of "scanned c"]
      distinct_keys_first_seen [of "scanned c"]
    by (simp add: seen_user_ids_def)
qed

theorem user_ids_are_first_seen_ids_witness:
  "scanned conn_example =
     [UStr ''42'', UStr ''42'', UStr ''42'', UStr ''42'', UStr ''42'', UStr ''42'', UInt 7,
      UStr ''42'']
   \<and> first_seen (scanned conn_example) = [UStr ''42'', UInt 7]
   \<and> mset (map user_id (data (build_snapshot repr_whole ints_first 0 conn_example))) =
       mset [''42'', ''7'']
   \<and> length (data (build_snapshot repr_whole ints_first 0 conn_example)) = 2
   \<and> distinct (map user_id (data (build_snapshot repr_whole ints_first 0 conn_example)))
   \<and> first_seen (scanned conn_float) = [UReal 1]
   \<and> mset (map user_id (data (build_snapshot repr_whole ints_first 0 conn_float))) =
       mset [''1.0'']"
proof -
  let ?d = "data (build_snapshot repr_whole ints_first 0 conn_example)"
  have s: "scanned conn_example =
     [UStr ''42'', UStr ''42'', UStr ''42'', UStr ''42'', UStr ''42'', UStr ''42'', UInt 7,
      UStr ''42'']"
    by (simp add: scanned_def conn_example_def delivers_def)
  have f: "first_seen (scanned conn_example) = [UStr ''42'', UInt 7]"
    unfolding s by (simp add: py_eq_def)
  have "py_key ` seen_user_ids conn_example = {UStr ''42'', UInt 7}"
    by (auto simp add: seen_user_ids_def s)
  then have k: "card (py_key ` seen_user_ids conn_example) = 2"
    by simp
  have p: "map (py_str repr_whole) [UStr ''42'', UInt 7] = [''42'', ''7'']"
    by (simp add: str_of_int_def dec_digits.simps)
  have i: "inj_on (py_str repr_whole) (set [UStr ''42'', UInt 7])"
    by (simp add: str_of_int_def dec_digits.simps)
  have g: "first_seen (scanned conn_float) = [UReal 1]"
    by (simp add: scanned_def conn_float_def delivers_def absent_def py_eq_def)
  have q: "map (py_str repr_whole) [UReal 1] = [''1.0'']"
    by (simp add: repr_whole_def str_of_int_def dec_digits.simps)
  note t = user_ids_are_first_seen_ids [of repr_whole ints_first 0 conn_example]
  have m: "mset (map user_id ?d) = mset [''42'', ''7'']"
    using t [THEN conjunct1] unfolding f p .
  have l: "length ?d = 2"
    using t [THEN conjunct2, THEN conjunct2, THEN conjunct2, THEN conjunct2, THEN conjunct1]
    unfolding k .
  have d: "distinct (map user_id ?d)"
    using t [THEN conjunct2, THEN conjunct2, THEN conjunct2, THEN conjunct2, THEN conjunct2]
      i
    unfolding f by (rule iffD2)
  have e: "mset (map user_id (data (build_snapshot repr_whole ints_first 0 conn_float))) =
     mset [''1.0'']"
    using user_ids_are_first_seen_ids [of repr_whole ints_first 0 conn_float, THEN conjunct1]
    unfolding g q .
  from s f m l d g e show ?thesis
    by (intro conjI)
qed

subsection \<open>Order\<close>

text \<open>
  C9: \<^verbatim>\<open>data\<close> is in ascending lexicographic order of the string form of the user
  identifier.
\<close>

theorem data_sorted_by_user_id:
  "sorted (map user_id (data (build_snapshot frepr rank now c)))"
  by (simp add: map_user_id_data)

theorem data_sorted_by_user_id_witness:
  "map user_id (data (build_snapshot repr_whole ints_first 0 conn_storage_classes)) =
     [''-0.0'', ''None'',
      [CHR ''b'', CHR 0x22, CHR 0x5C, CHR ''x'', CHR ''0'', CHR ''1'', CHR ''a'', CHR 0x27, CHR 0x22],
      ''x'']
   \<and> sorted [''-0.0'', ''None'',
        [CHR ''b'', CHR 0x22, CHR 0x5C, CHR ''x'', CHR ''0'', CHR ''1'', CHR ''a'', CHR 0x27, CHR 0x22],
        ''x'']"
proof -
  have e: "map user_id (data (build_snapshot repr_whole ints_first 0 conn_storage_classes)) =
     [''-0.0'', ''None'',
      [CHR ''b'', CHR 0x22, CHR 0x5C, CHR ''x'', CHR ''0'', CHR ''1'', CHR ''a'', CHR 0x27, CHR 0x22],
      ''x'']"
    by (simp add: snapshot_eval conn_storage_classes_def ints_first_def bytes_repr_def
        bytes_repr_char_def hex_digit_def)
  have o: "sorted [''-0.0'', ''None'',
        [CHR ''b'', CHR 0x22, CHR 0x5C, CHR ''x'', CHR ''0'', CHR ''1'', CHR ''a'', CHR 0x27, CHR 0x22],
        ''x'']"
    using data_sorted_by_user_id [of repr_whole ints_first 0 conn_storage_classes]
    unfolding e .
  from e o show ?thesis
    by (intro conjI)
qed

subsection \<open>Net credits\<close>

text \<open>
  C2: in every entry of the output, \<^verbatim>\<open>net_credits\<close> is \<^verbatim>\<open>current_credits\<close> minus
  \<^verbatim>\<open>removed_credits\<close> of the entry's own \<^verbatim>\<open>credits\<close>; no statement reads it from a relation.
\<close>

theorem net_credits_recomputed:
  "\<forall>x \<in> set (data (build_snapshot frepr rank now c)).
     net_credits x = current_credits (credits x) - removed_credits (credits x)"
  by (simp add: set_data entry_of_def user_record_def Let_def or_0_def)

theorem net_credits_recomputed_witness:
  "map net_credits (data (build_snapshot repr_whole ints_first 0 conn_example)) = [70, 0]
   \<and> map (\<lambda>x. current_credits (credits x) - removed_credits (credits x))
         (data (build_snapshot repr_whole ints_first 0 conn_example)) = [70, 0]"
proof -
  have e: "map net_credits (data (build_snapshot repr_whole ints_first 0 conn_example)) = [70, 0]"
    by (simp add: snapshot_eval conn_example_def ints_first_def int_literal_eval)
  have "map net_credits (data (build_snapshot repr_whole ints_first 0 conn_example)) =
        map (\<lambda>x. current_credits (credits x) - removed_credits (credits x))
          (data (build_snapshot repr_whole ints_first 0 conn_example))"
    using net_credits_recomputed [of repr_whole ints_first 0 conn_example] by (simp only: map_eq_conv)
  with e show ?thesis
    by simp
qed

subsection \<open>Several rows for one identifier\<close>

lemma foldl_upd_lookup:
  "foldl (\<lambda>m r. m(py_key (fst r) \<mapsto> g r)) m0 rs (py_key u) =
     (if rows_of u rs = [] then m0 (py_key u) else Some (g (last (rows_of u rs))))"
  by (induction rs rule: rev_induct) (simp_all add: rows_of_def py_eq_def)

lemma read_credits_lookup:
  "read_credits c ids (py_key u) =
     (if rows_of u (fetched (select_user_credits c)) = []
      then (if py_key u \<in> py_key ` set ids then Some zero_credits else None)
      else Some (credits_of_row (last (rows_of u (fetched (select_user_credits c))))))"
  by (simp add: read_credits_def foldl_upd_lookup)

lemma read_daily_lookup:
  "read_daily c ids (py_key u) =
     (if rows_of u (fetched (select_user_daily c)) = []
      then (if py_key u \<in> py_key ` set ids then Some default_daily else None)
      else Some (daily_of_row (last (rows_of u (fetched (select_user_daily c))))))"
  by (simp add: read_daily_def foldl_upd_lookup)

lemma foldl_append_lookup:
  "foldl (\<lambda>m r. m(py_key (fst r) \<mapsto>
                   (case m (py_key (fst r)) of None \<Rightarrow> [] | Some xs \<Rightarrow> xs) @ [snd r]))
     m0 rs (py_key u) =
     (if rows_of u rs = [] then m0 (py_key u)
      else Some ((case m0 (py_key u) of None \<Rightarrow> [] | Some xs \<Rightarrow> xs) @ map snd (rows_of u rs)))"
proof (induction rs rule: rev_induct)
  case Nil
  show ?case
    by (simp add: rows_of_def)
next
  case (snoc r rs)
  show ?case
  proof (cases "py_key (fst r) = py_key u")
    case True
    then show ?thesis
      using snoc by (simp add: rows_of_def py_eq_def split: option.splits)
  next
    case False
    then show ?thesis
      using snoc by (simp add: rows_of_def py_eq_def)
  qed
qed

lemma read_purchases_lookup:
  "read_purchases c (py_key u) =
     (if rows_of u (fetched (select_user_purchases c)) = [] then None
      else Some (map snd (rows_of u (fetched (select_user_purchases c)))))"
  by (simp add: read_purchases_def foldl_append_lookup)

lemma credits_entry_of:
  "credits (entry_of frepr c u) =
     (if rows_of u (fetched (select_user_credits c)) = [] then zero_credits
      else credits_of_row (last (rows_of u (fetched (select_user_credits c)))))"
  by (simp add: entry_of_def user_record_def Let_def read_credits_lookup)

lemma daily_entry_of:
  "daily (entry_of frepr c u) =
     (if rows_of u (fetched (select_user_daily c)) = [] then default_daily
      else daily_of_row (last (rows_of u (fetched (select_user_daily c)))))"
  by (simp add: entry_of_def user_record_def Let_def read_daily_lookup)

lemma purchases_entry_of:
  "purchases (entry_of frepr c u) = map snd (rows_of u (fetched (select_user_purchases c)))"
  by (simp add: entry_of_def user_record_def Let_def read_purchases_lookup)

lemma net_credits_entry_of:
  "net_credits (entry_of frepr c u) =
     current_credits (credits (entry_of frepr c u)) - removed_credits (credits (entry_of frepr c u))"
  by (simp add: entry_of_def user_record_def Let_def or_0_def)

lemma registered_entry_of:
  "registered (entry_of frepr c u) \<longleftrightarrow> py_key u \<in> read_registered c"
  by (simp add: entry_of_def user_record_def Let_def)

text \<open>
  C10: the entries of \<^verbatim>\<open>data\<close> are the records of the identifiers read, one for the first
  identifier of each class that Python holds equal, and the rows of an identifier are the
  rows whose identifier is equal to it. The \<^verbatim>\<open>credits\<close> of an identifier are the three
  columns, coerced by \<open>int_or_0\<close>, of the last row that \<^verbatim>\<open>user_credits\<close> delivers for it
  (all zero when there is none); its \<^verbatim>\<open>daily\<close> has the \<^verbatim>\<open>last_claim\<close> column as it is and
  the coerced \<^verbatim>\<open>streak\<close> column of the last row of \<^verbatim>\<open>user_daily\<close> (no \<^verbatim>\<open>last_claim\<close> and
  streak 0 when there is none): earlier rows leave no trace. Its \<^verbatim>\<open>purchases\<close> are the
  items of all its rows of \<^verbatim>\<open>user_purchases\<close>, one per row, in the order of delivery,
  which the statement fixes as ascending \<^verbatim>\<open>id\<close>.
\<close>

theorem last_row_wins_purchases_accumulate:
  "data (build_snapshot frepr rank now c) =
     map (entry_of frepr c) (sort_key (py_str frepr) (set_iter rank (first_seen (scanned c))))
   \<and> credits (entry_of frepr c u) =
       (if rows_of u (fetched (select_user_credits c)) = []
        then \<lparr>current_credits = 0, max_credits = 0, removed_credits = 0\<rparr>
        else (case last (rows_of u (fetched (select_user_credits c))) of
                (k, currc, maxc, remc) \<Rightarrow>
                  \<lparr>current_credits = int_or_0 currc, max_credits = int_or_0 maxc,
                   removed_credits = int_or_0 remc\<rparr>))
   \<and> daily (entry_of frepr c u) =
       (if rows_of u (fetched (select_user_daily c)) = []
        then \<lparr>last_claim = PyNone, streak = 0\<rparr>
        else (case last (rows_of u (fetched (select_user_daily c))) of
                (k, lastc, strk) \<Rightarrow> \<lparr>last_claim = lastc, streak = int_or_0 strk\<rparr>))
   \<and> purchases (entry_of frepr c u) = map snd (rows_of u (fetched (select_user_purchases c)))"
  by (simp only: data_build_snapshot credits_entry_of daily_entry_of purchases_entry_of
      zero_credits_def default_daily_def credits_of_row_def daily_of_row_def)

theorem last_row_wins_purchases_accumulate_witness:
  "rows_of (UStr ''42'') (fetched (select_user_credits conn_example)) =
     [(UStr ''42'', PyInt 1, PyInt 1, PyInt 1), (UStr ''42'', PyInt 100, PyNone, PyStr ''30'')]
   \<and> credits (entry_of repr_whole conn_example (UStr ''42'')) =
       \<lparr>current_credits = 100, max_credits = 0, removed_credits = 30\<rparr>
   \<and> rows_of (UStr ''42'') (fetched (select_user_daily conn_example)) =
       [(UStr ''42'', PyInt 1600000000, PyInt 4), (UStr ''42'', PyInt 1700000000, PyStr ''5'')]
   \<and> daily (entry_of repr_whole conn_example (UStr ''42'')) =
       \<lparr>last_claim = PyInt 1700000000, streak = 5\<rparr>
   \<and> daily (entry_of repr_whole conn_example (UInt 7)) = \<lparr>last_claim = PyNone, streak = 0\<rparr>
   \<and> purchases (entry_of repr_whole conn_example (UStr ''42'')) =
       [PyStr ''sword'', PyStr ''shield'']
   \<and> purchases (entry_of repr_whole conn_example (UInt 7)) = [PyStr ''potion'']
   \<and> map user_id (data (build_snapshot repr_whole ints_first 0 conn_example)) = [''42'', ''7'']
   \<and> purchases (entry_of repr_whole conn_storage_classes UNegZero) = [PyStr ''cape'', PyStr ''dart'']"
proof -
  have z: "rows_of UNegZero (fetched (select_user_purchases conn_storage_classes)) =
     [(UNegZero, PyStr ''cape''), (UInt 0, PyStr ''dart'')]"
    by (simp add: rows_of_def py_eq_def conn_storage_classes_def delivers_def)
  have e: "purchases (entry_of repr_whole conn_storage_classes UNegZero) =
     [PyStr ''cape'', PyStr ''dart'']"
    using last_row_wins_purchases_accumulate
      [of repr_whole ints_first 0 conn_storage_classes UNegZero]
    unfolding z by simp
  have r: "rows_of (UStr ''42'') (fetched (select_user_credits conn_example)) =
     [(UStr ''42'', PyInt 1, PyInt 1, PyInt 1), (UStr ''42'', PyInt 100, PyNone, PyStr ''30'')]"
    by (simp add: rows_of_def py_eq_def conn_example_def delivers_def)
  have d: "rows_of (UStr ''42'') (fetched (select_user_daily conn_example)) =
     [(UStr ''42'', PyInt 1600000000, PyInt 4), (UStr ''42'', PyInt 1700000000, PyStr ''5'')]"
    by (simp add: rows_of_def py_eq_def conn_example_def delivers_def)
  have p: "rows_of (UStr ''42'') (fetched (select_user_purchases conn_example)) =
     [(UStr ''42'', PyStr ''sword''), (UStr ''42'', PyStr ''shield'')]"
    by (simp add: rows_of_def py_eq_def conn_example_def delivers_def)
  have d7: "rows_of (UInt 7) (fetched (select_user_daily conn_example)) = []"
    by (simp add: rows_of_def py_eq_def conn_example_def delivers_def)
  have p7: "rows_of (UInt 7) (fetched (select_user_purchases conn_example)) =
     [(UInt 7, PyStr ''potion'')]"
    by (simp add: rows_of_def py_eq_def conn_example_def delivers_def)
  have v: "int_or_0 (PyInt 100) = 100" "int_or_0 PyNone = 0" "int_or_0 (PyStr ''30'') = 30"
    "int_or_0 (PyStr ''5'') = 5"
    by (simp_all add: int_literal_eval)
  have f: "first_seen (scanned conn_example) = [UStr ''42'', UInt 7]"
    by (simp add: scanned_def conn_example_def delivers_def py_eq_def)
  have o: "sort_key (py_str repr_whole) (set_iter ints_first [UStr ''42'', UInt 7]) =
     [UStr ''42'', UInt 7]"
    by (simp add: set_iter_def ints_first_def str_of_int_def dec_digits.simps)
  have a: "credits (entry_of repr_whole conn_example (UStr ''42'')) =
       \<lparr>current_credits = 100, max_credits = 0, removed_credits = 30\<rparr>
     \<and> daily (entry_of repr_whole conn_example (UStr ''42'')) =
       \<lparr>last_claim = PyInt 1700000000, streak = 5\<rparr>
     \<and> purchases (entry_of repr_whole conn_example (UStr ''42'')) =
       [PyStr ''sword'', PyStr ''shield'']
     \<and> map user_id (data (build_snapshot repr_whole ints_first 0 conn_example)) = [''42'', ''7'']"
    using last_row_wins_purchases_accumulate [of repr_whole ints_first 0 conn_example "UStr ''42''"]
    unfolding r d p f o by (simp add: v user_id_entry_of str_of_int_def dec_digits.simps)
  have b: "daily (entry_of repr_whole conn_example (UInt 7)) = \<lparr>last_claim = PyNone, streak = 0\<rparr>
     \<and> purchases (entry_of repr_whole conn_example (UInt 7)) = [PyStr ''potion'']"
    using last_row_wins_purchases_accumulate [of repr_whole ints_first 0 conn_example "UInt 7"]
    unfolding d7 p7 by simp
  from a b r d e show ?thesis
    by simp
qed

subsection \<open>Two runs on the same source\<close>

lemma sorted_ids_unique:
  assumes "inj_on (py_str frepr) (set ids)"
  shows "sort_key (py_str frepr) (set_iter r1 ids) = sort_key (py_str frepr) (set_iter r2 ids)"
proof (rule sort_key_inj_key_eq)
  show "mset (set_iter r1 ids) = mset (sort_key (py_str frepr) (set_iter r2 ids))"
    by (simp add: set_iter_def)
  show "inj_on (py_str frepr) (set (set_iter r1 ids))"
    using assms by (simp add: set_iter_def)
  show "sorted (map (py_str frepr) (sort_key (py_str frepr) (set_iter r2 ids)))"
    by simp
qed

text \<open>
  C7, as the claim states it, fails: when two different identifiers have the same string
  form, their entries stand in the order in which the set is iterated, and two runs that
  iterate it differently put them in different order.
\<close>

theorem build_snapshot_order_counterexample:
  "map net_credits (data (build_snapshot repr_whole ints_first 0 conn_mixed)) = [100, 0]
   \<and> map net_credits (data (build_snapshot repr_whole text_first 0 conn_mixed)) = [0, 100]
   \<and> data (build_snapshot repr_whole ints_first 0 conn_mixed) \<noteq> data (build_snapshot repr_whole text_first 0 conn_mixed)"
  by (simp add: snapshot_eval conn_mixed_def ints_first_def text_first_def)

text \<open>
  C7, amended: when no two different identifiers read from the source have the same string
  form, two runs on the same source assemble the same snapshot except for
  \<^verbatim>\<open>generated_at\<close>, whatever the clock and the iteration order of the set are; the document
  written is a function of the snapshot.
\<close>

theorem build_snapshot_deterministic:
  "inj_on (py_str frepr) (seen_user_ids c) \<Longrightarrow>
     build_snapshot frepr r1 t1 c = (build_snapshot frepr r2 t2 c)\<lparr>generated_at := t1\<rparr>"
proof -
  assume "inj_on (py_str frepr) (seen_user_ids c)"
  then have "inj_on (py_str frepr) (set (collect_user_ids c))"
    using first_seen_subset [of "scanned c"]
    by (simp add: collect_user_ids_first_seen seen_user_ids_def inj_on_subset)
  then have "sort_key (py_str frepr) (set_iter r1 (collect_user_ids c)) =
             sort_key (py_str frepr) (set_iter r2 (collect_user_ids c))"
    by (rule sorted_ids_unique)
  then show ?thesis
    by (simp add: build_snapshot_def Let_def)
qed

theorem build_snapshot_deterministic_witness:
  "build_snapshot repr_whole ints_first 1 conn_example =
     (build_snapshot repr_whole text_first 2 conn_example)\<lparr>generated_at := 1\<rparr>"
proof -
  have s: "seen_user_ids conn_example = {UStr ''42'', UInt 7}"
    by (auto simp add: seen_user_ids_def scanned_def conn_example_def delivers_def)
  have i: "inj_on (py_str repr_whole) (seen_user_ids conn_example)"
    unfolding s by (simp add: str_of_int_def dec_digits.simps)
  show ?thesis
    by (rule build_snapshot_deterministic [OF i])
qed

subsection \<open>Relations that cannot be read\<close>

text \<open>
  C4, as the claim states it, fails: a relation whose reading raises after some rows does
  not count as empty. The credit scan delivers the row of user 1 and raises; user 1 has
  the credits of that row, not the default.
\<close>

theorem partial_read_counterexample:
  "raised (select_user_credits conn_partial)
   \<and> map user_id (data (build_snapshot repr_whole ints_first 0 conn_partial)) = [''1'', ''2'']
   \<and> map (current_credits \<circ> credits) (data (build_snapshot repr_whole ints_first 0 conn_partial)) = [5, 0]
   \<and> map net_credits (data (build_snapshot repr_whole ints_first 0 conn_partial)) = [3, 0]"
  by (simp add: snapshot_eval conn_partial_def ints_first_def)

text \<open>
  C4, amended: \<open>build_snapshot\<close> returns a snapshot whatever the statements do. When a
  relation is absent, or its reading raises before a row is delivered, every entry has
  the default of the fields that come from it: zero credits (and net credits 0), streak 0
  and no \<^verbatim>\<open>last_claim\<close>, no purchases, not registered, no roles. When the reading raises
  after some rows, the rows delivered are used as if the reading had ended there, except
  for \<^verbatim>\<open>register_status\<close>: no user is registered then.
\<close>

theorem unreadable_relation_defaults:
  "(fetched (select_user_credits c) = [] \<longrightarrow>
      (\<forall>x \<in> set (data (build_snapshot frepr rank now c)). credits x = zero_credits \<and> net_credits x = 0))
   \<and> (fetched (select_user_daily c) = [] \<longrightarrow>
      (\<forall>x \<in> set (data (build_snapshot frepr rank now c)). daily x = default_daily))
   \<and> (fetched (select_user_purchases c) = [] \<longrightarrow>
      (\<forall>x \<in> set (data (build_snapshot frepr rank now c)). purchases x = []))
   \<and> (fetched (select_user_id c ''register_status'') = [] \<or> raised (select_user_id c ''register_status'') \<longrightarrow>
      (\<forall>x \<in> set (data (build_snapshot frepr rank now c)). \<not> registered x))
   \<and> (fetched (select_roles c ''non_stacking_roles'') = [] \<longrightarrow>
      non_stacking_roles (roles (build_snapshot frepr rank now c)) = [])
   \<and> (fetched (select_roles c ''role_credits'') = [] \<longrightarrow>
      role_credits (roles (build_snapshot frepr rank now c)) = [])
   \<and> build_snapshot frepr rank now
        (c\<lparr>select_user_credits := (select_user_credits c)\<lparr>raised := b1\<rparr>,
           select_user_daily := (select_user_daily c)\<lparr>raised := b2\<rparr>,
           select_user_purchases := (select_user_purchases c)\<lparr>raised := b3\<rparr>,
           select_roles := (\<lambda>t. (select_roles c t)\<lparr>raised := b4 t\<rparr>)\<rparr>)
       = build_snapshot frepr rank now c"
proof -
  have a: "fetched (select_user_credits c) = [] \<longrightarrow>
      (\<forall>x \<in> set (data (build_snapshot frepr rank now c)). credits x = zero_credits \<and> net_credits x = 0)"
    by (simp add: set_data net_credits_entry_of credits_entry_of rows_of_def zero_credits_def)
  have b: "fetched (select_user_daily c) = [] \<longrightarrow>
      (\<forall>x \<in> set (data (build_snapshot frepr rank now c)). daily x = default_daily)"
    by (simp add: set_data daily_entry_of rows_of_def)
  have p: "fetched (select_user_purchases c) = [] \<longrightarrow>
      (\<forall>x \<in> set (data (build_snapshot frepr rank now c)). purchases x = [])"
    by (simp add: set_data purchases_entry_of rows_of_def)
  have r: "fetched (select_user_id c ''register_status'') = [] \<or> raised (select_user_id c ''register_status'') \<longrightarrow>
      (\<forall>x \<in> set (data (build_snapshot frepr rank now c)). \<not> registered x)"
    by (auto simp add: set_data registered_entry_of read_registered_def Let_def)
  have n: "fetched (select_roles c ''non_stacking_roles'') = [] \<longrightarrow>
      non_stacking_roles (roles (build_snapshot frepr rank now c)) = []"
    by (simp add: build_snapshot_def Let_def read_roles_def)
  have o: "fetched (select_roles c ''role_credits'') = [] \<longrightarrow>
      role_credits (roles (build_snapshot frepr rank now c)) = []"
    by (simp add: build_snapshot_def Let_def read_roles_def)
  have k: "build_snapshot frepr rank now
        (c\<lparr>select_user_credits := (select_user_credits c)\<lparr>raised := b1\<rparr>,
           select_user_daily := (select_user_daily c)\<lparr>raised := b2\<rparr>,
           select_user_purchases := (select_user_purchases c)\<lparr>raised := b3\<rparr>,
           select_roles := (\<lambda>t. (select_roles c t)\<lparr>raised := b4 t\<rparr>)\<rparr>)
       = build_snapshot frepr rank now c"
    by (simp add: build_snapshot_def Let_def collect_user_ids_def read_credits_def read_daily_def
        read_purchases_def read_registered_def read_roles_def)
  from a b p r n o k show ?thesis
    by blast
qed

theorem unreadable_relation_defaults_witness:
  "map credits (data (build_snapshot repr_whole ints_first 0 conn_only_purchases)) = [zero_credits]
   \<and> map net_credits (data (build_snapshot repr_whole ints_first 0 conn_only_purchases)) = [0]
   \<and> map daily (data (build_snapshot repr_whole ints_first 0 conn_only_purchases)) = [default_daily]
   \<and> map registered (data (build_snapshot repr_whole ints_first 0 conn_only_purchases)) = [False]
   \<and> map purchases (data (build_snapshot repr_whole ints_first 0 conn_partial)) = [[], []]
   \<and> roles (build_snapshot repr_whole ints_first 0 conn_partial) =
       \<lparr>non_stacking_roles = [], role_credits = []\<rparr>"
proof -
  let ?s = "build_snapshot repr_whole ints_first 0 conn_only_purchases"
  let ?t = "build_snapshot repr_whole ints_first 0 conn_partial"
  have d: "map user_id (data ?s) = [''9'']"
    by (simp add: snapshot_eval conn_only_purchases_def ints_first_def)
  then obtain x where x: "data ?s = [x]"
    by auto
  have e: "map user_id (data ?t) = [''1'', ''2'']"
    by (simp add: snapshot_eval conn_partial_def ints_first_def)
  then obtain y z where y: "data ?t = [y, z]"
    by auto
  have h: "fetched (select_user_credits conn_only_purchases) = []"
    "fetched (select_user_daily conn_only_purchases) = []"
    "raised (select_user_id conn_only_purchases ''register_status'')"
    "fetched (select_user_purchases conn_partial) = []"
    "fetched (select_roles conn_partial ''non_stacking_roles'') = []"
    "fetched (select_roles conn_partial ''role_credits'') = []"
    by (simp_all add: conn_only_purchases_def conn_partial_def absent_def)
  have u: "roles ?t = \<lparr>non_stacking_roles = non_stacking_roles (roles ?t),
                       role_credits = role_credits (roles ?t)\<rparr>"
    by simp
  show ?thesis
    using unreadable_relation_defaults [of conn_only_purchases repr_whole ints_first 0]
      unreadable_relation_defaults [of conn_partial repr_whole ints_first 0] h u
    by (simp add: x y)
qed

section \<open>Properties of the file operations\<close>

lemmas io_eval =
  main_def main_try_def main_finally_def download_to_tmp_def open_sqlite_ro_def
  atomic_write_json_def mkstemp_def path_join_def dirname_def truthy_def arg_text_def die_def
  mode_0600_def mode_0644_def env_example_def Let_def

lemma path_join_nonempty: "f \<noteq> [] \<Longrightarrow> path_join d f \<noteq> []"
  by (simp add: path_join_def)

lemma mkstemp_fresh:
  assumes "mkstemp e suffix dir fs = Some p"
  shows "fs p = None \<and> p \<noteq> []"
proof -
  from assms obtain n where f: "fs p = None" and p: "p = path_join dir (''tmp'' @ n @ suffix)"
    by (auto simp add: mkstemp_def find_Some_iff)
  have "path_join dir (''tmp'' @ n @ suffix) \<noteq> []"
    by (rule path_join_nonempty) simp
  with f p show ?thesis
    by simp
qed

subsection \<open>The durable write\<close>

lemma atomic_write_json_cases:
  assumes "fs out_path \<noteq> None \<or> mkstemp e ''.json'' (dirname out_path) fs \<noteq> Some out_path"
  shows "(\<exists>st. st \<noteq> Chmod \<and> fst (atomic_write_json e obj out_path fs) = Some (WriteError st)
            \<and> (\<forall>s \<in> set (snd (atomic_write_json e obj out_path fs)). s out_path = fs out_path))
         \<or> ((fst (atomic_write_json e obj out_path fs) = None
              \<or> fst (atomic_write_json e obj out_path fs) = Some (WriteError Chmod))
            \<and> \<not> snd (json_dump e obj)
            \<and> (\<forall>s \<in> set (snd (atomic_write_json e obj out_path fs)).
                  s out_path = fs out_path
                  \<or> s out_path = Some (fst (json_dump e obj), mode_0600)
                  \<or> s out_path = Some (fst (json_dump e obj), mode_0644))
            \<and> (last (snd (atomic_write_json e obj out_path fs)) out_path
                  = Some (fst (json_dump e obj), mode_0600)
                \<or> last (snd (atomic_write_json e obj out_path fs)) out_path
                  = Some (fst (json_dump e obj), mode_0644)))"
proof (cases "mkstemp e ''.json'' (dirname out_path) fs")
  case None
  then show ?thesis
    by (simp add: atomic_write_json_def Let_def)
next
  case (Some tmp)
  with assms mkstemp_fresh [OF Some] have "tmp \<noteq> out_path"
    by auto
  with Some show ?thesis
    by (simp add: atomic_write_json_def Let_def)
qed

text \<open>
  C3: let the temporary file have another name than the destination, which is so whenever
  a previous destination file exists. Then in every state the file system goes through
  during \<open>atomic_write_json\<close>, the destination path holds what it held before (the previous
  file, or nothing) or the complete new document, never a part of it. When the function
  fails at any step up to and including the replace step (creating the directory or the
  temporary file, serialization, flush, sync, close, replace), the destination path holds
  what it held before in every state. Only when the replace step has succeeded does the
  destination hold the new document.
\<close>

theorem atomic_write_json_keeps_destination:
  assumes "fs out_path \<noteq> None \<or> mkstemp e ''.json'' (dirname out_path) fs \<noteq> Some out_path"
  shows "(\<forall>s \<in> set (snd (atomic_write_json e obj out_path fs)).
            s out_path = fs out_path
            \<or> (\<not> snd (json_dump e obj) \<and> (\<exists>m. s out_path = Some (fst (json_dump e obj), m))))
         \<and> (\<forall>st. fst (atomic_write_json e obj out_path fs) = Some (WriteError st) \<and> st \<noteq> Chmod
              \<longrightarrow> (\<forall>s \<in> set (snd (atomic_write_json e obj out_path fs)).
                     s out_path = fs out_path))
         \<and> ((\<exists>s \<in> set (snd (atomic_write_json e obj out_path fs)). s out_path \<noteq> fs out_path)
              \<longrightarrow> (fst (atomic_write_json e obj out_path fs) = None
                    \<or> fst (atomic_write_json e obj out_path fs) = Some (WriteError Chmod))
                   \<and> (\<exists>m. last (snd (atomic_write_json e obj out_path fs)) out_path
                            = Some (fst (json_dump e obj), m)))"
proof -
  define r where "r = fst (atomic_write_json e obj out_path fs)"
  define tr where "tr = snd (atomic_write_json e obj out_path fs)"
  define doc where "doc = fst (json_dump e obj)"
  define bad where "bad = snd (json_dump e obj)"
  define old where "old = fs out_path"
  have c: "(\<exists>st. st \<noteq> Chmod \<and> r = Some (WriteError st) \<and> (\<forall>s \<in> set tr. s out_path = old))
         \<or> ((r = None \<or> r = Some (WriteError Chmod)) \<and> \<not> bad
            \<and> (\<forall>s \<in> set tr. s out_path = old \<or> s out_path = Some (doc, mode_0600)
                  \<or> s out_path = Some (doc, mode_0644))
            \<and> (last tr out_path = Some (doc, mode_0600)
                \<or> last tr out_path = Some (doc, mode_0644)))"
    unfolding r_def tr_def doc_def bad_def old_def
    by (rule atomic_write_json_cases [OF assms])
  have 1: "\<forall>s \<in> set tr. s out_path = old \<or> (\<not> bad \<and> (\<exists>m. s out_path = Some (doc, m)))"
    using c by blast
  have 2: "\<forall>st. r = Some (WriteError st) \<and> st \<noteq> Chmod \<longrightarrow> (\<forall>s \<in> set tr. s out_path = old)"
    using c by auto
  have 3: "(\<exists>s \<in> set tr. s out_path \<noteq> old) \<longrightarrow>
      (r = None \<or> r = Some (WriteError Chmod)) \<and> (\<exists>m. last tr out_path = Some (doc, m))"
    using c by blast
  from 1 2 3 show ?thesis
    unfolding r_def tr_def doc_def bad_def old_def by (intro conjI)
qed

theorem atomic_write_json_keeps_destination_witness:
  "fst (atomic_write_json env_dump_fails (build_snapshot repr_whole ints_first 0 conn_example)
          ''/srv/snapshot.json'' fs_previous) = Some (WriteError Dump)
   \<and> map (\<lambda>s. s ''/srv/snapshot.json'')
         (snd (atomic_write_json env_dump_fails (build_snapshot repr_whole ints_first 0 conn_example)
                 ''/srv/snapshot.json'' fs_previous))
       = replicate 3 (Some (''{\"generated_at\":1}'', mode_0644))"
proof -
  let ?w = "atomic_write_json env_dump_fails (build_snapshot repr_whole ints_first 0 conn_example)
              ''/srv/snapshot.json'' fs_previous"
  have p: "fs_previous ''/srv/snapshot.json'' = Some (''{\"generated_at\":1}'', mode_0644)"
    by (simp add: fs_previous_def)
  then have h: "fs_previous ''/srv/snapshot.json'' \<noteq> None
      \<or> mkstemp env_dump_fails ''.json'' (dirname ''/srv/snapshot.json'') fs_previous
          \<noteq> Some ''/srv/snapshot.json''"
    by simp
  have f: "fst ?w = Some (WriteError Dump)"
    by (simp add: io_eval env_dump_fails_def fs_previous_def)
  have n: "length (snd ?w) = 3"
    by (simp add: io_eval env_dump_fails_def fs_previous_def)
  have "\<forall>s \<in> set (snd ?w). s ''/srv/snapshot.json'' = fs_previous ''/srv/snapshot.json''"
    using atomic_write_json_keeps_destination [OF h] f by blast
  then have "map (\<lambda>s. s ''/srv/snapshot.json'') (snd ?w)
      = map (\<lambda>s. fs_previous ''/srv/snapshot.json'') (snd ?w)"
    by (simp only: map_eq_conv)
  then have "map (\<lambda>s. s ''/srv/snapshot.json'') (snd ?w)
      = replicate 3 (Some (''{\"generated_at\":1}'', mode_0644))"
    by (simp only: map_replicate_const n p)
  with f show ?thesis
    by simp
qed

section \<open>Properties of \<open>main\<close>\<close>

subsection \<open>The source that is read\<close>

text \<open>
  C6, as the claim states it, fails: with a local path and a URL both given, the
  database is fetched from the URL. The document written lists the user of the remote
  database; with the local path alone it lists the users of the local one.
\<close>

theorem remote_wins_counterexample:
  "truthy (db args_both) \<and> truthy (db_url args_both)
   \<and> snd (main env_example args_both fs_local) ''/srv/snapshot.json'' = Some (''9;'', mode_0644)
   \<and> snd (main env_example (args_both\<lparr>db_url := None\<rparr>) fs_local) ''/srv/snapshot.json''
       = Some (''42;7;'', mode_0644)"
  by (simp add: io_eval args_both_def fs_local_def snapshot_eval conn_only_purchases_def
      conn_example_def ints_first_def)

text \<open>
  C6, amended: when a remote reference is given on the command line (and is not empty),
  the remote reference is the one honoured, whether or not a local path is given too:
  the local path has no influence on the run.
\<close>

theorem remote_source_ignores_local:
  "truthy (db_url a) \<Longrightarrow> main e (a\<lparr>db := x\<rparr>) fs = main e a fs"
  by (simp add: main_def main_try_def Let_def split: prod.split sum.split)

theorem remote_source_ignores_local_witness:
  "main env_example args_both fs_local = main env_example args_url fs_local"
proof -
  have t: "truthy (db_url args_url)"
    by (simp add: truthy_def args_url_def)
  have a: "args_url\<lparr>db := Some ''/data/credits.db''\<rparr> = args_both"
    by (simp add: args_url_def args_both_def)
  show ?thesis
    using remote_source_ignores_local [OF t, of env_example "Some ''/data/credits.db''" fs_local]
    unfolding a .
qed

subsection \<open>The temporary database file\<close>

text \<open>
  When \<open>download_to_tmp\<close> returns a path, \<open>main\<close> removes that file in every outcome of
  the later steps, provided \<^verbatim>\<open>os.remove\<close> itself succeeds.
\<close>

lemma download_to_tmp_path:
  "download_to_tmp e url fs = (Inr tmp, fs1) \<Longrightarrow> tmp \<noteq> []"
  by (auto simp add: download_to_tmp_def Let_def split: http_response.splits option.splits
      dest: mkstemp_fresh)

lemma main_finally_removes:
  "remove_ok e \<Longrightarrow> tmp \<noteq> [] \<Longrightarrow> main_finally e (Some tmp) fs tmp = None"
  by (cases "fs tmp") (simp_all add: main_finally_def)

lemma temp_db_removed_after_download:
  assumes "truthy (db_url a)" "download_to_tmp e (arg_text (db_url a)) fs = (Inr tmp, fs1)"
    "remove_ok e"
  shows "snd (main e a fs) tmp = None"
proof -
  have "\<exists>r fs2. main_try e a fs = (r, Some tmp, fs2)"
    using assms(1,2) by (simp add: main_try_def Let_def split: sum.splits)
  then show ?thesis
    using assms(1,3) download_to_tmp_path [OF assms(2)]
    by (auto simp add: main_def main_finally_removes)
qed

text \<open>
  When reading the body or writing it to the temporary file raises, the temporary file
  exists already, \<open>download_to_tmp\<close> exits without a path, \<^verbatim>\<open>tmp_db\<close> is still \<^verbatim>\<open>None\<close> in the
  \<^verbatim>\<open>finally\<close> block, and the file stays.
\<close>

lemma temp_db_left_after_read_failure:
  assumes "truthy (db_url a)" "urlopen e (arg_text (db_url a)) = Response body (Some msg)"
    "mkstemp e ''.db'' (gettempdir e) fs = Some tmp"
  shows "main e a fs = (Some (die (''Failed to download DB: '' @ msg)), fs(tmp \<mapsto> ([], mode_0600)))"
  using assms by (simp add: main_def main_try_def download_to_tmp_def main_finally_def Let_def)

text \<open>
  C8 does not hold of the program: the server answers, reading the body times out, and
  the run ends with exit code 1 and leaves the temporary file behind.
\<close>

theorem temp_db_left_behind:
  "main env_read_fails args_url Map.empty =
     (Some (SystemExit 1 ''Failed to download DB: timed out''),
      [''/tmp/tmpk3v9x1aa.db'' \<mapsto> ([], mode_0600)])"
  by (simp add: io_eval args_url_def env_read_fails_def)

end
